theory Spec2Isabelle
  imports Main
begin

section \<open>JavaScript values as the handler sees them\<close>

text \<open>
  A JavaScript string is a sequence of UTF-16 code units; \<open>length\<close> counts code units.
  The literals of \<^verbatim>\<open>server.js\<close> that are not ASCII are written as their code units,
  the ASCII ones through \<open>asc\<close>.
\<close>

type_synonym jsstring = "nat list"

definition asc :: "string \<Rightarrow> jsstring" where
  "asc s = map of_char s"

text \<open>
  What \<^verbatim>\<open>JSON.parse\<close> can produce, plus \<^verbatim>\<open>undefined\<close> for a property that is not
  there. A number is an integer here: a JSON numeral with a fraction or an exponent is a
  double and is outside this model. An object is the list of its own properties; the
  first binding of a key is the one a read finds.
\<close>

datatype jsval =
    JUndefined
  | JNull
  | JBool bool
  | JNum int
  | JStr jsstring
  | JArr "jsval list"
  | JObj "(jsstring \<times> jsval) list"

datatype exn =
    TypeError
  | AxiosError "(nat \<times> jsval) option"

definition thenE :: "exn + 'a \<Rightarrow> ('a \<Rightarrow> exn + 'b) \<Rightarrow> exn + 'b" where
  "thenE m f = (case m of Inl e \<Rightarrow> Inl e | Inr x \<Rightarrow> f x)"

fun truthy :: "jsval \<Rightarrow> bool" where
  "truthy JUndefined = False"
| "truthy JNull = False"
| "truthy (JBool b) = b"
| "truthy (JNum n) = (n \<noteq> 0)"
| "truthy (JStr s) = (s \<noteq> [])"
| "truthy (JArr xs) = True"
| "truthy (JObj kvs) = True"

text \<open>\<^verbatim>\<open>!v\<close>\<close>

fun falsy :: "jsval \<Rightarrow> bool" where
  "falsy JUndefined = True"
| "falsy JNull = True"
| "falsy (JBool b) = (b = False)"
| "falsy (JNum n) = (n = 0)"
| "falsy (JStr s) = (s = [])"
| "falsy (JArr xs) = False"
| "falsy (JObj kvs) = False"

fun nullish :: "jsval \<Rightarrow> bool" where
  "nullish JUndefined = True"
| "nullish JNull = True"
| "nullish v = False"

fun primitive :: "jsval \<Rightarrow> bool" where
  "primitive (JArr xs) = False"
| "primitive (JObj kvs) = False"
| "primitive v = True"

text \<open>\<^verbatim>\<open>a || b\<close>\<close>

definition js_or :: "jsval \<Rightarrow> jsval \<Rightarrow> jsval" where
  "js_or a b = (if truthy a then a else b)"

text \<open>
  \<^verbatim>\<open>v.k\<close> for a value that is neither \<^verbatim>\<open>null\<close> nor \<^verbatim>\<open>undefined\<close> and a name \<open>k\<close>
  that is not an array index. The handler reads only names that no built-in prototype
  defines, so an object answers with its own property and an array or a string with
  its \<^verbatim>\<open>length\<close>.
\<close>

fun prop_of :: "jsval \<Rightarrow> jsstring \<Rightarrow> jsval" where
  "prop_of (JObj kvs) k = (case map_of kvs k of Some v \<Rightarrow> v | None \<Rightarrow> JUndefined)"
| "prop_of (JArr xs) k = (if k = asc ''length'' then JNum (int (length xs)) else JUndefined)"
| "prop_of (JStr s) k = (if k = asc ''length'' then JNum (int (length s)) else JUndefined)"
| "prop_of v k = JUndefined"

text \<open>Reading a property of \<^verbatim>\<open>null\<close> or \<^verbatim>\<open>undefined\<close> throws a TypeError.\<close>

definition get :: "jsval \<Rightarrow> jsstring \<Rightarrow> exn + jsval" where
  "get v k = (if nullish v then Inl TypeError else Inr (prop_of v k))"

text \<open>Decimal digits of a natural number, the text of an array index.\<close>

function nat_to_str :: "nat \<Rightarrow> jsstring" where
  "nat_to_str n = (if n < 10 then [48 + n] else nat_to_str (n div 10) @ [48 + n mod 10])"
  by pat_completeness auto
termination
  by (relation "measure (\<lambda>n. n)") auto

declare nat_to_str.simps [simp del]

text \<open>\<^verbatim>\<open>v[i]\<close> for a value that is neither \<^verbatim>\<open>null\<close> nor \<^verbatim>\<open>undefined\<close>.\<close>

fun item_of :: "jsval \<Rightarrow> nat \<Rightarrow> jsval" where
  "item_of (JArr xs) i = (if i < length xs then xs ! i else JUndefined)"
| "item_of (JStr s) i = (if i < length s then JStr [s ! i] else JUndefined)"
| "item_of (JObj kvs) i = prop_of (JObj kvs) (nat_to_str i)"
| "item_of v i = JUndefined"

definition get_item :: "jsval \<Rightarrow> nat \<Rightarrow> exn + jsval" where
  "get_item v i = (if nullish v then Inl TypeError else Inr (item_of v i))"

text \<open>Optional chaining: \<^verbatim>\<open>v?.k\<close> and \<^verbatim>\<open>v?.[i]\<close>.\<close>

definition opt_prop :: "jsval \<Rightarrow> jsstring \<Rightarrow> jsval" where
  "opt_prop v k = (if nullish v then JUndefined else prop_of v k)"

definition opt_item :: "jsval \<Rightarrow> nat \<Rightarrow> jsval" where
  "opt_item v i = (if nullish v then JUndefined else item_of v i)"

subsection \<open>Conversion to a string and to a number\<close>

definition int_to_str :: "int \<Rightarrow> jsstring" where
  "int_to_str n = (if n < 0 then 45 # nat_to_str (nat (- n)) else nat_to_str (nat n))"

fun join_comma :: "jsstring list \<Rightarrow> jsstring" where
  "join_comma [] = []"
| "join_comma [s] = s"
| "join_comma (s # ss) = s @ 44 # join_comma ss"

fun sequenceE :: "(exn + 'a) list \<Rightarrow> exn + 'a list" where
  "sequenceE [] = Inr []"
| "sequenceE (m # ms) =
     (case m of Inl e \<Rightarrow> Inl e
      | Inr x \<Rightarrow> (case sequenceE ms of Inl e \<Rightarrow> Inl e | Inr xs \<Rightarrow> Inr (x # xs)))"

text \<open>
  ToString, as string concatenation applies it. A parsed object has no callable
  \<^verbatim>\<open>toString\<close> of its own: it inherits the one that answers \<^verbatim>\<open>[object Object]\<close>,
  unless an own property of that name hides it, and then the conversion throws. An
  array is joined with commas, \<^verbatim>\<open>null\<close> entries as the empty string. An integer is
  written in decimal (the engine does so below \<open>10\<^sup>2\<^sup>1\<close>).
\<close>

fun to_str :: "jsval \<Rightarrow> exn + jsstring" where
  "to_str JUndefined = Inr (asc ''undefined'')"
| "to_str JNull = Inr (asc ''null'')"
| "to_str (JBool b) = Inr (if b then asc ''true'' else asc ''false'')"
| "to_str (JNum n) = Inr (int_to_str n)"
| "to_str (JStr s) = Inr s"
| "to_str (JArr xs) =
     (case sequenceE (map (\<lambda>x. if nullish x then Inr [] else to_str x) xs) of
        Inl e \<Rightarrow> Inl e
      | Inr ss \<Rightarrow> Inr (join_comma ss))"
| "to_str (JObj kvs) =
     (if asc ''toString'' \<in> fst ` set kvs then Inl TypeError
      else Inr (asc ''[object Object]''))"

text \<open>\<^verbatim>\<open>v + "suffix"\<close>: the left operand is converted to a string.\<close>

definition js_plus :: "jsval \<Rightarrow> jsstring \<Rightarrow> exn + jsval" where
  "js_plus v suffix = thenE (to_str v) (\<lambda>s. Inr (JStr (s @ suffix)))"

text \<open>
  StringToNumber, for the texts whose value this model can hold: white space is trimmed,
  the empty string is 0, and an optionally signed run of decimal digits is its value.
  Every other text is answered NaN (\<open>None\<close>); that is the engine's answer unless the text
  is a numeral with a fraction, an exponent or a radix prefix, or \<^verbatim>\<open>Infinity\<close>, which are
  outside the model as non-integer numbers are.
\<close>

definition is_ws :: "nat \<Rightarrow> bool" where
  "is_ws c = (c \<in> {9, 10, 11, 12, 13, 32, 160, 5760, 8232, 8233, 8239, 8287, 12288, 65279}
              \<or> (8192 \<le> c \<and> c \<le> 8202))"

definition is_digit :: "nat \<Rightarrow> bool" where
  "is_digit c = (48 \<le> c \<and> c \<le> 57)"

definition digits_value :: "jsstring \<Rightarrow> nat" where
  "digits_value ds = foldl (\<lambda>acc c. 10 * acc + (c - 48)) 0 ds"

definition StringToNumber :: "jsstring \<Rightarrow> int option" where
  "StringToNumber s =
     (let t = rev (dropWhile is_ws (rev (dropWhile is_ws s))) in
      case t of
        [] \<Rightarrow> Some 0
      | c # cs \<Rightarrow>
          if c = 45 \<and> cs \<noteq> [] \<and> list_all is_digit cs then Some (- int (digits_value cs))
          else if c = 43 \<and> cs \<noteq> [] \<and> list_all is_digit cs then Some (int (digits_value cs))
          else if list_all is_digit t then Some (int (digits_value t))
          else None)"

definition to_number :: "jsval \<Rightarrow> exn + int option" where
  "to_number v =
     (case v of
        JUndefined \<Rightarrow> Inr None
      | JNull \<Rightarrow> Inr (Some 0)
      | JBool b \<Rightarrow> Inr (Some (if b then 1 else 0))
      | JNum n \<Rightarrow> Inr (Some n)
      | JStr s \<Rightarrow> Inr (StringToNumber s)
      | _ \<Rightarrow> thenE (to_str v) (\<lambda>s. Inr (StringToNumber s)))"

text \<open>\<^verbatim>\<open>i < v\<close> for a loop counter \<open>i\<close>: false when \<open>v\<close> converts to NaN.\<close>

definition counter_less :: "nat \<Rightarrow> jsval \<Rightarrow> exn + bool" where
  "counter_less i v =
     thenE (to_number v) (\<lambda>n. Inr (case n of None \<Rightarrow> False | Some m \<Rightarrow> int i < m))"

section \<open>The city registry\<close>

record city_entry =
  cid :: jsstring
  name :: jsstring
  displayName :: jsstring

text \<open>
  \<^verbatim>\<open>CITIES\<close>, in the order of the object literal (the order of \<^verbatim>\<open>Object.keys\<close> and
  \<^verbatim>\<open>Object.values\<close>). The Chinese names are given as UTF-16 code units.
\<close>

definition CITIES :: "(jsstring \<times> city_entry) list" where
  "CITIES =
     [(asc ''taipei'',
         \<lparr>cid = asc ''taipei'', name = [33274, 21271, 24066], displayName = [21488, 21271, 24066]\<rparr>),
      (asc ''newtaipei'',
         \<lparr>cid = asc ''newtaipei'', name = [26032, 21271, 24066], displayName = [26032, 21271, 24066]\<rparr>),
      (asc ''taoyuan'',
         \<lparr>cid = asc ''taoyuan'', name = [26691, 22290, 24066], displayName = [26691, 22290, 24066]\<rparr>),
      (asc ''taichung'',
         \<lparr>cid = asc ''taichung'', name = [33274, 20013, 24066], displayName = [21488, 20013, 24066]\<rparr>),
      (asc ''tainan'',
         \<lparr>cid = asc ''tainan'', name = [33274, 21335, 24066], displayName = [21488, 21335, 24066]\<rparr>),
      (asc ''kaohsiung'',
         \<lparr>cid = asc ''kaohsiung'', name = [39640, 38596, 24066], displayName = [39640, 38596, 24066]\<rparr>)]"

text \<open>
  \<^verbatim>\<open>CITIES\<close> is an object literal, so \<^verbatim>\<open>CITIES[city]\<close> also finds what
  \<^verbatim>\<open>Object.prototype\<close> defines: its methods, \<^verbatim>\<open>constructor\<close> (the function
  \<^verbatim>\<open>Object\<close>) and the accessor \<^verbatim>\<open>__proto__\<close> (the prototype object itself).
\<close>

datatype registry_value =
    Entry city_entry
  | BuiltinFunction jsstring
  | PrototypeObject
  | NotThere

definition Object_prototype_methods :: "jsstring list" where
  "Object_prototype_methods =
     [asc ''__defineGetter__'', asc ''__defineSetter__'', asc ''hasOwnProperty'',
      asc ''__lookupGetter__'', asc ''__lookupSetter__'', asc ''isPrototypeOf'',
      asc ''propertyIsEnumerable'', asc ''toString'', asc ''valueOf'', asc ''toLocaleString'']"

text \<open>\<^verbatim>\<open>CITIES[city]\<close>; a built-in function carries its \<^verbatim>\<open>name\<close>.\<close>

definition CITIES_at :: "jsstring \<Rightarrow> registry_value" where
  "CITIES_at k =
     (case map_of CITIES k of
        Some c \<Rightarrow> Entry c
      | None \<Rightarrow>
          if k = asc ''constructor'' then BuiltinFunction (asc ''Object'')
          else if k = asc ''__proto__'' then PrototypeObject
          else if k \<in> set Object_prototype_methods then BuiltinFunction k
          else NotThere)"

fun present :: "registry_value \<Rightarrow> bool" where
  "present NotThere = False"
| "present v = True"

text \<open>\<^verbatim>\<open>CITIES[city].name\<close> and \<^verbatim>\<open>CITIES[city].displayName\<close>.\<close>

fun name_of :: "registry_value \<Rightarrow> jsval" where
  "name_of (Entry c) = JStr (name c)"
| "name_of (BuiltinFunction f) = JStr f"
| "name_of v = JUndefined"

fun displayName_of :: "registry_value \<Rightarrow> jsval" where
  "displayName_of (Entry c) = JStr (displayName c)"
| "displayName_of v = JUndefined"

text \<open>
  \<^verbatim>\<open>Object.values(CITIES).map((c) => ({ id: c.id, name: c.displayName }))\<close>,
  each object as the pair of its \<^verbatim>\<open>id\<close> and \<^verbatim>\<open>name\<close>.
\<close>

definition validCities :: "(jsstring \<times> jsstring) list" where
  "validCities = map (\<lambda>(k, c). (cid c, displayName c)) CITIES"

text \<open>\<^verbatim>\<open>Object.keys(CITIES).join(", ")\<close>\<close>

fun join_comma_space :: "jsstring list \<Rightarrow> jsstring" where
  "join_comma_space [] = []"
| "join_comma_space [s] = s"
| "join_comma_space (s # ss) = s @ 44 # 32 # join_comma_space ss"

section \<open>Responses\<close>

record forecast =
  startTime :: jsval
  endTime :: jsval
  weather :: jsval
  rain :: jsval
  minTemp :: jsval
  maxTemp :: jsval
  comfort :: jsval
  windSpeed :: jsval

record weatherData =
  city :: jsval
  cityId :: jsstring
  updateTime :: jsval
  forecastTime :: jsval
  forecasts :: "forecast list"

text \<open>
  The bodies \<^verbatim>\<open>res.json\<close> is given: the invalid-city envelope (error, message,
  validCities), the plain error envelope (error, message), the upstream-error envelope
  (error, message, details) and the success envelope (\<^verbatim>\<open>success: true\<close>, data).
\<close>

datatype body =
    InvalidCityBody jsstring jsstring "(jsstring \<times> jsstring) list"
  | ErrorBody jsstring jsstring
  | UpstreamErrorBody jsstring jsval jsval
  | SuccessBody weatherData

record response =
  status :: nat
  json :: body

text \<open>
  What the handler's promise ends as: a response was sent, or an exception escaped the
  \<^verbatim>\<open>catch\<close> block and the handler sent nothing.
\<close>

datatype outcome =
    Sent response
  | Unhandled exn

section \<open>The upstream call\<close>

text \<open>
  The request \<^verbatim>\<open>axios.get\<close> is given, and what the network answers: a final HTTP
  response with its status and parsed body, or none. With its default
  \<^verbatim>\<open>validateStatus\<close>, axios resolves on a status from 200 to 299 and rejects with an
  error carrying the response otherwise; a transport failure rejects with an error that
  has no \<^verbatim>\<open>response\<close>.
\<close>

record outbound =
  url :: jsstring
  Authorization :: jsstring
  locationName :: jsval

datatype upstream =
    HttpResponse nat jsval
  | NoResponse

definition axios_get :: "upstream \<Rightarrow> exn + jsval" where
  "axios_get r =
     (case r of
        HttpResponse code payload \<Rightarrow>
          if 200 \<le> code \<and> code < 300 then Inr payload
          else Inl (AxiosError (Some (code, payload)))
      | NoResponse \<Rightarrow> Inl (AxiosError None))"

definition CWA_API_BASE_URL :: jsstring where
  "CWA_API_BASE_URL = asc ''https://opendata.cwa.gov.tw/api''"

section \<open>The forecast loop of \<^verbatim>\<open>getCityWeather\<close>\<close>

text \<open>The text literals of the loop: U+4E0D U+660E (unknown) and U+00B0 C.\<close>

definition unknown_text :: jsstring where
  "unknown_text = [19981, 26126]"

definition degrees_C :: jsstring where
  "degrees_C = [176, 67]"

text \<open>The object literal that starts a period (lines 98 to 107).\<close>

definition seed :: "jsval \<Rightarrow> jsval \<Rightarrow> forecast" where
  "seed st et =
     \<lparr>startTime = st, endTime = et,
      weather = JStr unknown_text,
      rain = JStr (asc ''0%''),
      minTemp = JStr (asc ''N/A''),
      maxTemp = JStr (asc ''N/A''),
      comfort = JStr unknown_text,
      windSpeed = JStr (asc ''0'')\<rparr>"

text \<open>\<^verbatim>\<open>element.time[i].parameter\<close> (line 110)\<close>

definition parameter_at :: "jsval \<Rightarrow> nat \<Rightarrow> exn + jsval" where
  "parameter_at element i =
     thenE (get element (asc ''time'')) (\<lambda>t.
     thenE (get_item t i) (\<lambda>slot. get slot (asc ''parameter'')))"

text \<open>
  The callback of \<^verbatim>\<open>weatherElements.forEach\<close> (lines 109 to 133), at time index \<open>i\<close>;
  the period it assigns to is passed in and returned.
\<close>

definition callback :: "nat \<Rightarrow> forecast \<Rightarrow> jsval \<Rightarrow> exn + forecast" where
  "callback i fc element =
     thenE (parameter_at element i) (\<lambda>v.
       if truthy v then
         let elementName = prop_of element (asc ''elementName'');
             parameterName = prop_of v (asc ''parameterName'')
         in
           if elementName = JStr (asc ''Wx'') then
             Inr (fc\<lparr>weather := js_or parameterName (JStr unknown_text)\<rparr>)
           else if elementName = JStr (asc ''PoP'') then
             thenE (js_plus (js_or parameterName (JStr (asc ''0''))) (asc ''%''))
               (\<lambda>s. Inr (fc\<lparr>rain := s\<rparr>))
           else if elementName = JStr (asc ''MinT'') then
             thenE (js_plus (js_or parameterName (JStr (asc ''N/A''))) degrees_C)
               (\<lambda>s. Inr (fc\<lparr>minTemp := s\<rparr>))
           else if elementName = JStr (asc ''MaxT'') then
             thenE (js_plus (js_or parameterName (JStr (asc ''N/A''))) degrees_C)
               (\<lambda>s. Inr (fc\<lparr>maxTemp := s\<rparr>))
           else if elementName = JStr (asc ''CI'') then
             Inr (fc\<lparr>comfort := js_or parameterName (JStr unknown_text)\<rparr>)
           else if elementName = JStr (asc ''WS'') then
             Inr (fc\<lparr>windSpeed := js_or parameterName (JStr (asc ''0''))\<rparr>)
           else Inr fc
       else Inr fc)"

text \<open>\<^verbatim>\<open>forEach\<close> over the entries of an array, stopping at the first exception.\<close>

primrec forEach :: "(forecast \<Rightarrow> jsval \<Rightarrow> exn + forecast) \<Rightarrow> jsval list \<Rightarrow> forecast \<Rightarrow> exn + forecast" where
  "forEach f [] fc = Inr fc"
| "forEach f (x # xs) fc = (case f fc x of Inl e \<Rightarrow> Inl e | Inr fc' \<Rightarrow> forEach f xs fc')"

text \<open>
  \<^verbatim>\<open>weatherElements.forEach(...)\<close>: only an array has the method; on any other value
  the call throws a TypeError.
\<close>

definition weatherElements_forEach :: "jsval \<Rightarrow> nat \<Rightarrow> forecast \<Rightarrow> exn + forecast" where
  "weatherElements_forEach weatherElements i fc =
     (case weatherElements of
        JArr elements \<Rightarrow> forEach (callback i) elements fc
      | _ \<Rightarrow> Inl TypeError)"

text \<open>\<^verbatim>\<open>weatherElements[0].time[i]\<close>\<close>

definition slot0 :: "jsval \<Rightarrow> nat \<Rightarrow> exn + jsval" where
  "slot0 weatherElements i =
     thenE (get_item weatherElements 0) (\<lambda>e0.
     thenE (get e0 (asc ''time'')) (\<lambda>t. get_item t i))"

text \<open>One pass of the loop body (lines 98 to 133): the period of time index \<open>i\<close>.\<close>

definition period :: "jsval \<Rightarrow> nat \<Rightarrow> exn + forecast" where
  "period weatherElements i =
     thenE (thenE (slot0 weatherElements i) (\<lambda>s. get s (asc ''startTime''))) (\<lambda>st.
     thenE (thenE (slot0 weatherElements i) (\<lambda>s. get s (asc ''endTime''))) (\<lambda>et.
     weatherElements_forEach weatherElements i (seed st et)))"

text \<open>
  \<^verbatim>\<open>for (let i = 0; i < timeCount; i++) { ...; weatherData.forecasts.push(forecast) }\<close>
  with the list pushed to as the accumulator.
\<close>

function forecast_loop :: "jsval \<Rightarrow> jsval \<Rightarrow> nat \<Rightarrow> forecast list \<Rightarrow> exn + forecast list" where
  "forecast_loop weatherElements timeCount i acc =
     (case counter_less i timeCount of
        Inl e \<Rightarrow> Inl e
      | Inr again \<Rightarrow>
          if again then
            (case period weatherElements i of
               Inl e \<Rightarrow> Inl e
             | Inr fc \<Rightarrow> forecast_loop weatherElements timeCount (Suc i) (acc @ [fc]))
          else Inr acc)"
  by pat_completeness auto
termination
  by (relation "measure (\<lambda>(w, tc, i, acc).
        case to_number tc of Inr (Some m) \<Rightarrow> nat (m - int i) | _ \<Rightarrow> 0)")
     (auto simp: counter_less_def thenE_def split: sum.splits option.splits)

declare forecast_loop.simps [simp del]

section \<open>The handler\<close>

definition invalid_city :: response where
  "invalid_city =
     \<lparr>status = 400,
      json = InvalidCityBody
        [28961, 25928, 30340, 22478, 24066, 20195, 30908]
        ([22478, 24066, 20195, 30908, 24517, 38920, 26159, 58, 32] @ join_comma_space (map fst CITIES))
        validCities\<rparr>"

definition missing_key :: response where
  "missing_key =
     \<lparr>status = 500,
      json = ErrorBody
        [20282, 26381, 22120, 35373, 23450, 37679, 35492]
        ([35531, 22312, 32] @ asc ''.env'' @ [32, 27284, 26696, 20013, 35373, 23450, 32] @ asc ''CWA_API_KEY'')\<rparr>"

definition no_data :: "jsstring \<Rightarrow> response" where
  "no_data shown =
     \<lparr>status = 404,
      json = ErrorBody
        [26597, 28961, 36039, 26009]
        ([28961, 27861, 21462, 24471, 32] @ shown @ [32, 30340, 22825, 27683, 36039, 26009])\<rparr>"

definition server_error :: response where
  "server_error =
     \<lparr>status = 500,
      json = ErrorBody
        [20282, 26381, 22120, 37679, 35492]
        [28961, 27861, 21462, 24471, 22825, 27683, 36039, 26009, 65292, 35531, 31245, 24460, 20877, 35430]\<rparr>"

text \<open>
  Lines 70 to 141: from the parsed body \<^verbatim>\<open>response.data\<close> to the response, or to the
  exception thrown on the way.
\<close>

definition after_response :: "jsstring \<Rightarrow> jsval \<Rightarrow> exn + response" where
  "after_response cityParam payload =
     thenE (get payload (asc ''records'')) (\<lambda>records.
       if falsy records
          \<or> falsy (prop_of records (asc ''location''))
          \<or> prop_of (prop_of records (asc ''location'')) (asc ''length'') = JNum 0
       then
         thenE (to_str (displayName_of (CITIES_at cityParam))) (\<lambda>shown. Inr (no_data shown))
       else
         thenE (get_item (prop_of records (asc ''location'')) 0) (\<lambda>locationData.
         thenE (get locationData (asc ''weatherElement'')) (\<lambda>weatherElements.
         thenE (get_item weatherElements 0) (\<lambda>e0.
         let forecastTime =
               js_or (opt_prop (opt_item (opt_prop e0 (asc ''time'')) 0) (asc ''startTime'')) JNull
         in
         thenE (get e0 (asc ''time'')) (\<lambda>t.
         thenE (get t (asc ''length'')) (\<lambda>timeCount.
         thenE (forecast_loop weatherElements timeCount 0 []) (\<lambda>fs.
           Inr \<lparr>status = 200,
                json = SuccessBody
                  \<lparr>city = displayName_of (CITIES_at cityParam),
                   cityId = cityParam,
                   updateTime = prop_of records (asc ''datasetDescription''),
                   forecastTime = forecastTime,
                   forecasts = fs\<rparr>\<rparr>)))))))"

text \<open>
  The request of lines 59 to 67: the dataset URL, with the key and the registry's
  \<^verbatim>\<open>name\<close> for the city as query parameters.
\<close>

definition request_for :: "jsstring \<Rightarrow> jsstring \<Rightarrow> outbound" where
  "request_for key cityParam =
     \<lparr>url = CWA_API_BASE_URL @ asc ''/v1/rest/datastore/F-C0032-001'',
      Authorization = key,
      locationName = name_of (CITIES_at cityParam)\<rparr>"

text \<open>
  The \<^verbatim>\<open>try\<close> block, with the list of the requests it sent upstream. The module
  constant \<^verbatim>\<open>CWA_API_KEY\<close> is a string or \<^verbatim>\<open>undefined\<close>; \<open>network\<close> is what the
  upstream answers to a request.
\<close>

definition try_block ::
  "jsstring option \<Rightarrow> (outbound \<Rightarrow> upstream) \<Rightarrow> jsstring \<Rightarrow> (exn + response) \<times> outbound list" where
  "try_block CWA_API_KEY network cityParam =
     (if \<not> present (CITIES_at cityParam) then (Inr invalid_city, [])
      else
        case CWA_API_KEY of
          None \<Rightarrow> (Inr missing_key, [])
        | Some key \<Rightarrow>
            if key = [] then (Inr missing_key, [])
            else
              (thenE (axios_get (network (request_for key cityParam))) (after_response cityParam),
               [request_for key cityParam]))"

text \<open>
  The \<^verbatim>\<open>catch\<close> block (lines 142 to 157). Reading \<^verbatim>\<open>error.response.data.message\<close>
  can throw in turn.
\<close>

definition catch_block :: "exn \<Rightarrow> exn + response" where
  "catch_block error =
     (case error of
        AxiosError (Some (code, payload)) \<Rightarrow>
          thenE (get payload (asc ''message'')) (\<lambda>m.
            Inr \<lparr>status = code,
                 json = UpstreamErrorBody
                   (asc ''CWA API '' @ [37679, 35492])
                   (js_or m (JStr [28961, 27861, 21462, 24471, 22825, 27683, 36039, 26009]))
                   payload\<rparr>)
      | _ \<Rightarrow> Inr server_error)"

definition getCityWeather ::
  "jsstring option \<Rightarrow> (outbound \<Rightarrow> upstream) \<Rightarrow> jsstring \<Rightarrow> outcome \<times> outbound list" where
  "getCityWeather CWA_API_KEY network cityParam =
     (case try_block CWA_API_KEY network cityParam of
        (Inr r, sent) \<Rightarrow> (Sent r, sent)
      | (Inl error, sent) \<Rightarrow>
          (case catch_block error of
             Inr r \<Rightarrow> (Sent r, sent)
           | Inl error' \<Rightarrow> (Unhandled error', sent)))"

section \<open>Registered codes and mocked upstream payloads\<close>

text \<open>\<^verbatim>\<open>Object.keys(CITIES)\<close>: the registered city codes.\<close>

definition city_codes :: "jsstring list" where
  "city_codes = map fst CITIES"

text \<open>
  Upstream bodies of the shape the dataset has:
  \<^verbatim>\<open>records.location[0].weatherElement[].time[].{startTime, endTime, parameter}\<close>.
\<close>

definition mock_parameter :: "jsstring \<Rightarrow> jsval" where
  "mock_parameter s = JObj [(asc ''parameterName'', JStr s)]"

definition mock_slot :: "string \<Rightarrow> string \<Rightarrow> jsval \<Rightarrow> jsval" where
  "mock_slot st et p =
     JObj [(asc ''startTime'', JStr (asc st)), (asc ''endTime'', JStr (asc et)),
           (asc ''parameter'', p)]"

definition mock_element :: "string \<Rightarrow> jsval list \<Rightarrow> jsval" where
  "mock_element n slots = JObj [(asc ''elementName'', JStr (asc n)), (asc ''time'', JArr slots)]"

definition mock_records :: "jsval \<Rightarrow> jsval" where
  "mock_records location =
     JObj [(asc ''records'',
            JObj [(asc ''datasetDescription'', JStr (asc ''36h'')), (asc ''location'', location)])]"

definition mock_payload :: "jsval list \<Rightarrow> jsval" where
  "mock_payload elements = mock_records (JArr [JObj [(asc ''weatherElement'', JArr elements)]])"

text \<open>
  A mocked body with two weather elements over two time slots: \<^verbatim>\<open>Wx\<close> with U+591A U+96F2
  (cloudy) and then an empty name, \<^verbatim>\<open>PoP\<close> with "20" and then no parameter.
\<close>

definition Wx_slots :: "jsval list" where
  "Wx_slots =
     [mock_slot ''06:00'' ''18:00'' (mock_parameter [22810, 38642]),
      mock_slot ''18:00'' ''06:00'' (mock_parameter [])]"

definition PoP_slots :: "jsval list" where
  "PoP_slots =
     [mock_slot ''06:00'' ''18:00'' (mock_parameter (asc ''20'')),
      mock_slot ''18:00'' ''06:00'' JUndefined]"

definition two_periods :: "jsval list" where
  "two_periods = [mock_element ''Wx'' Wx_slots, mock_element ''PoP'' PoP_slots]"

definition two_forecasts :: "forecast list" where
  "two_forecasts =
     [(seed (JStr (asc ''06:00'')) (JStr (asc ''18:00'')))
        \<lparr>weather := JStr [22810, 38642], rain := JStr (asc ''20%'')\<rparr>,
      seed (JStr (asc ''18:00'')) (JStr (asc ''06:00''))]"

section \<open>The specification's reading of the loop\<close>

text \<open>
  The table of the specification, in its words: the element name selects the field; the
  text is the parameter name, with the default in the place of an empty or missing one,
  and the suffix after it. A name outside the table changes nothing.
\<close>

definition or_default :: "jsstring option \<Rightarrow> jsstring \<Rightarrow> jsstring" where
  "or_default given d = (case given of None \<Rightarrow> d | Some s \<Rightarrow> if s = [] then d else s)"

definition field_table :: "jsval \<Rightarrow> jsstring option \<Rightarrow> forecast \<Rightarrow> forecast" where
  "field_table elementName given fc =
     (if elementName = JStr (asc ''Wx'') then
        fc\<lparr>weather := JStr (or_default given unknown_text)\<rparr>
      else if elementName = JStr (asc ''PoP'') then
        fc\<lparr>rain := JStr (or_default given (asc ''0'') @ asc ''%'')\<rparr>
      else if elementName = JStr (asc ''MinT'') then
        fc\<lparr>minTemp := JStr (or_default given (asc ''N/A'') @ degrees_C)\<rparr>
      else if elementName = JStr (asc ''MaxT'') then
        fc\<lparr>maxTemp := JStr (or_default given (asc ''N/A'') @ degrees_C)\<rparr>
      else if elementName = JStr (asc ''CI'') then
        fc\<lparr>comfort := JStr (or_default given unknown_text)\<rparr>
      else if elementName = JStr (asc ''WS'') then
        fc\<lparr>windSpeed := JStr (or_default given (asc ''0''))\<rparr>
      else fc)"

text \<open>The element names of the table, the field each one stands for, and its defaults.\<close>

definition table_names :: "jsstring list" where
  "table_names = map asc [''Wx'', ''PoP'', ''MinT'', ''MaxT'', ''CI'', ''WS'']"

definition field_of :: "jsstring \<Rightarrow> forecast \<Rightarrow> jsval" where
  "field_of n fc =
     (if n = asc ''Wx'' then weather fc
      else if n = asc ''PoP'' then rain fc
      else if n = asc ''MinT'' then minTemp fc
      else if n = asc ''MaxT'' then maxTemp fc
      else if n = asc ''CI'' then comfort fc
      else if n = asc ''WS'' then windSpeed fc
      else JUndefined)"

text \<open>
  The documented default of a field whose parameter name is empty: the default text with
  the suffix of the field.
\<close>

definition documented_default :: "jsstring \<Rightarrow> jsval" where
  "documented_default n =
     (if n = asc ''Wx'' \<or> n = asc ''CI'' then JStr unknown_text
      else if n = asc ''PoP'' then JStr (asc ''0%'')
      else if n = asc ''MinT'' \<or> n = asc ''MaxT'' then JStr (asc ''N/A'' @ degrees_C)
      else if n = asc ''WS'' then JStr (asc ''0'')
      else JUndefined)"

text \<open>The value a field is seeded with, as the specification lists them.\<close>

definition seed_default :: "jsstring \<Rightarrow> jsval" where
  "seed_default n =
     (if n = asc ''Wx'' \<or> n = asc ''CI'' then JStr unknown_text
      else if n = asc ''PoP'' then JStr (asc ''0%'')
      else if n = asc ''MinT'' \<or> n = asc ''MaxT'' then JStr (asc ''N/A'')
      else if n = asc ''WS'' then JStr (asc ''0'')
      else JUndefined)"

text \<open>
  The structural assumption of the loop, made explicit. A time slot is usable when it is
  an object (not \<^verbatim>\<open>null\<close>, not missing) and its parameter, if it has one, names a
  primitive value; an element is usable up to \<open>n\<close> when it has a \<^verbatim>\<open>time\<close> value with a
  usable slot at every index below \<open>n\<close>.
\<close>

definition slot_usable :: "jsval \<Rightarrow> bool" where
  "slot_usable slot =
     (\<not> nullish slot
      \<and> (if truthy (prop_of slot (asc ''parameter''))
         then primitive (prop_of (prop_of slot (asc ''parameter'')) (asc ''parameterName''))
         else True))"

definition element_usable :: "nat \<Rightarrow> jsval \<Rightarrow> bool" where
  "element_usable n element =
     (\<not> nullish element \<and> \<not> nullish (prop_of element (asc ''time''))
      \<and> list_all (\<lambda>i. slot_usable (item_of (prop_of element (asc ''time'')) i)) [0..<n])"

text \<open>The forecast list a client receives, if the handler sent one.\<close>

definition forecasts_sent :: "outcome \<Rightarrow> forecast list option" where
  "forecasts_sent out =
     (case out of
        Sent r \<Rightarrow> (case json r of SuccessBody wd \<Rightarrow> Some (forecasts wd) | _ \<Rightarrow> None)
      | Unhandled e \<Rightarrow> None)"

text \<open>
  Step 3 of the specification as a whole: for every weather element, in the order of the
  payload, read the parameter of its \<open>i\<close>-th time slot; if it is present, apply the
  table to the period, else leave the period as it is. The text given to the table is
  the parameter name when it is a string, and nothing otherwise.
\<close>

definition given_text :: "jsval \<Rightarrow> jsstring option" where
  "given_text v = (case v of JStr s \<Rightarrow> Some s | _ \<Rightarrow> None)"

definition table_step :: "nat \<Rightarrow> jsval \<Rightarrow> forecast \<Rightarrow> forecast" where
  "table_step i element fc =
     (if truthy (prop_of (item_of (prop_of element (asc ''time'')) i) (asc ''parameter''))
      then field_table (prop_of element (asc ''elementName''))
             (given_text
                (prop_of (prop_of (item_of (prop_of element (asc ''time'')) i) (asc ''parameter''))
                   (asc ''parameterName'')))
             fc
      else fc)"

text \<open>
  Steps 2 to 4 for one time index: the period seeded from the given slot of element 0,
  after the table has been applied for every element.
\<close>

definition table_period :: "jsval list \<Rightarrow> jsval \<Rightarrow> nat \<Rightarrow> forecast" where
  "table_period elements slot i =
     fold (table_step i) elements
       (seed (prop_of slot (asc ''startTime'')) (prop_of slot (asc ''endTime'')))"

text \<open>
  The payloads the table speaks of. A parameter name is a string, or it is empty or
  missing (any falsy value: \<^verbatim>\<open>undefined\<close>, \<^verbatim>\<open>null\<close>, the empty string). A slot is
  textual for an element name when it is an object and, if the name is one of the table
  and the slot has a parameter, the parameter's name is such a value; an element is
  textual up to \<open>n\<close> when it has a \<^verbatim>\<open>time\<close> value with a textual slot at every index
  below \<open>n\<close>.
\<close>

definition string_or_empty :: "jsval \<Rightarrow> bool" where
  "string_or_empty v = (case v of JStr s \<Rightarrow> True | _ \<Rightarrow> falsy v)"

definition slot_textual :: "jsval \<Rightarrow> jsval \<Rightarrow> bool" where
  "slot_textual elementName slot =
     (\<not> nullish slot
      \<and> (if truthy (prop_of slot (asc ''parameter'')) \<and> elementName \<in> set (map JStr table_names)
         then string_or_empty (prop_of (prop_of slot (asc ''parameter'')) (asc ''parameterName''))
         else True))"

definition element_textual :: "nat \<Rightarrow> jsval \<Rightarrow> bool" where
  "element_textual n element =
     (\<not> nullish element \<and> \<not> nullish (prop_of element (asc ''time''))
      \<and> list_all
          (\<lambda>i. slot_textual (prop_of element (asc ''elementName''))
                 (item_of (prop_of element (asc ''time'')) i))
          [0..<n])"

text \<open>
  The mocked body of two periods with a third element the table does not know, whose
  parameter names are a number and an object.
\<close>

definition UVI_slots :: "jsval list" where
  "UVI_slots =
     [mock_slot ''06:00'' ''18:00'' (JObj [(asc ''parameterName'', JNum 7)]),
      mock_slot ''18:00'' ''06:00''
        (JObj [(asc ''parameterName'', JObj [(asc ''toString'', JNull)])])]"

definition with_unknown_element :: "jsval list" where
  "with_unknown_element =
     [mock_element ''Wx'' Wx_slots, mock_element ''UVI'' UVI_slots, mock_element ''PoP'' PoP_slots]"

section \<open>Basic facts\<close>

lemma thenE_simps [simp]: "thenE (Inl e) f = Inl e" "thenE (Inr x) f = f x"
  by (simp_all add: thenE_def)

lemma falsy_iff [simp]: "falsy v = (\<not> truthy v)"
  by (cases v) auto

lemma truthy_not_nullish: "truthy v \<Longrightarrow> \<not> nullish v"
  by (cases v) auto

lemma asc_inject [simp]: "(asc s = asc t) = (s = t)"
  unfolding asc_def by (simp add: inj_map_eq_map inj_on_def)

lemma asc_Nil [simp]: "asc [] = []"
  by (simp add: asc_def)

lemma asc_eq_Nil [simp]: "(asc s = []) = (s = [])"
  by (simp add: asc_def)

lemma get_simps:
  "\<not> nullish v \<Longrightarrow> get v k = Inr (prop_of v k)"
  "nullish v \<Longrightarrow> get v k = Inl TypeError"
  "\<not> nullish v \<Longrightarrow> get_item v i = Inr (item_of v i)"
  "nullish v \<Longrightarrow> get_item v i = Inl TypeError"
  by (simp_all add: get_def get_item_def)

lemma asc_append: "asc s @ asc t = asc (s @ t)"
  by (simp add: asc_def)

lemma prop_of_JArr_not_nullish: "prop_of v k = JArr xs \<Longrightarrow> \<not> nullish v \<and> truthy v"
  by (cases v) (auto split: if_splits)

subsection \<open>Reading the mocked payloads\<close>

lemma mock_element_props:
  "prop_of (mock_element n slots) (asc ''time'') = JArr slots"
  "prop_of (mock_element n slots) (asc ''elementName'') = JStr (asc n)"
  "\<not> nullish (mock_element n slots)"
  by (simp_all add: mock_element_def)

lemma mock_slot_props:
  "prop_of (mock_slot st et p) (asc ''startTime'') = JStr (asc st)"
  "prop_of (mock_slot st et p) (asc ''endTime'') = JStr (asc et)"
  "prop_of (mock_slot st et p) (asc ''parameter'') = p"
  "\<not> nullish (mock_slot st et p)"
  by (simp_all add: mock_slot_def)

lemma mock_parameter_props:
  "prop_of (mock_parameter s) (asc ''parameterName'') = JStr s"
  "truthy (mock_parameter s)"
  by (simp_all add: mock_parameter_def)

lemma mock_payload_props:
  "prop_of (prop_of (mock_payload es) (asc ''records'')) (asc ''location'')
     = JArr [JObj [(asc ''weatherElement'', JArr es)]]"
  "prop_of (JObj [(asc ''weatherElement'', JArr es)]) (asc ''weatherElement'') = JArr es"
  by (simp_all add: mock_payload_def mock_records_def)

lemma parameter_at_mock:
  "i < length slots \<Longrightarrow> slots ! i = mock_slot st et p \<Longrightarrow>
   parameter_at (mock_element n slots) i = Inr p"
  by (simp add: parameter_at_def mock_element_props mock_slot_props get_simps)

subsection \<open>The registry\<close>

lemma city_codes_eq:
  "city_codes = map asc [''taipei'', ''newtaipei'', ''taoyuan'', ''taichung'', ''tainan'', ''kaohsiung'']"
  by (simp add: city_codes_def CITIES_def)

lemma CITIES_at_registered:
  "k \<in> set city_codes \<Longrightarrow> \<exists>c. CITIES_at k = Entry c \<and> map_of CITIES k = Some c"
  by (auto simp: city_codes_def CITIES_at_def CITIES_def)

lemma CITIES_at_constructor: "CITIES_at (asc ''constructor'') = BuiltinFunction (asc ''Object'')"
  by (simp add: CITIES_at_def CITIES_def)

lemma CITIES_at_toString: "CITIES_at (asc ''toString'') = BuiltinFunction (asc ''toString'')"
  by (simp add: CITIES_at_def CITIES_def Object_prototype_methods_def)

subsection \<open>The handler around the upstream call\<close>

lemma try_block_upstream:
  assumes "present (CITIES_at cityParam)" and "key \<noteq> []"
  shows "getCityWeather (Some key) network cityParam =
     (case thenE (axios_get (network (request_for key cityParam))) (after_response cityParam) of
        Inr r \<Rightarrow> Sent r
      | Inl error \<Rightarrow> (case catch_block error of Inr r \<Rightarrow> Sent r | Inl error' \<Rightarrow> Unhandled error'),
      [request_for key cityParam])"
  using assms by (simp add: getCityWeather_def try_block_def split: sum.splits)

lemma axios_get_2xx:
  "200 \<le> code \<Longrightarrow> code < 300 \<Longrightarrow> axios_get (HttpResponse code payload) = Inr payload"
  by (simp add: axios_get_def)

lemma axios_get_other:
  "\<not> (200 \<le> code \<and> code < 300) \<Longrightarrow>
   axios_get (HttpResponse code payload) = Inl (AxiosError (Some (code, payload)))"
  by (simp add: axios_get_def)

lemma catch_TypeError: "catch_block TypeError = Inr server_error"
  by (simp add: catch_block_def)

section \<open>City validation and configuration\<close>

text \<open>
  A code that neither the registry nor \<^verbatim>\<open>Object.prototype\<close> knows is answered 400, with
  the six registered cities in \<^verbatim>\<open>validCities\<close>, whatever the key is and without any
  upstream request.
\<close>

lemma unknown_city_400:
  assumes "CITIES_at cityParam = NotThere"
  shows "getCityWeather key network cityParam = (Sent invalid_city, [])"
  using assms by (simp add: getCityWeather_def try_block_def)

lemma invalid_city_envelope:
  "status invalid_city = 400
   \<and> (\<exists>e m. json invalid_city = InvalidCityBody e m validCities)
   \<and> map fst validCities = city_codes \<and> length validCities = 6"
  by (simp add: invalid_city_def validCities_def city_codes_def CITIES_def)

text \<open>
  C6. Every city parameter outside the six registered codes should be answered 400 with
  the six valid cities. The check \<^verbatim>\<open>!CITIES[city]\<close> also finds what the registry
  inherits from \<^verbatim>\<open>Object.prototype\<close>: the parameter \<^verbatim>\<open>constructor\<close> is not a registered
  code, yet it passes the check, a request with \<^verbatim>\<open>locationName\<close> "Object" goes upstream
  and, on an empty \<^verbatim>\<open>location\<close> list, the answer is 404 for the city "undefined".
\<close>

theorem constructor_passes_city_check:
  "asc ''constructor'' \<notin> set city_codes
   \<and> getCityWeather (Some (asc ''key'')) (\<lambda>r. HttpResponse 200 (mock_records (JArr [])))
         (asc ''constructor'')
       = (Sent (no_data (asc ''undefined'')),
          [\<lparr>url = CWA_API_BASE_URL @ asc ''/v1/rest/datastore/F-C0032-001'',
            Authorization = asc ''key'', locationName = JStr (asc ''Object'')\<rparr>])
   \<and> status (no_data (asc ''undefined'')) = 404"
  by (simp add: city_codes_eq try_block_upstream axios_get_2xx CITIES_at_constructor
        after_response_def mock_records_def get_simps request_for_def no_data_def)

text \<open>
  C5. For every registered city code, when the API key is absent (undefined or the empty
  string), the handler answers 500 with the configuration-error envelope and sends no
  request upstream.
\<close>

theorem missing_key_500_no_outbound:
  assumes "cityParam \<in> set city_codes" and "key = None \<or> key = Some []"
  shows "getCityWeather key network cityParam = (Sent missing_key, [])
         \<and> status missing_key = 500"
proof -
  obtain c where "CITIES_at cityParam = Entry c"
    using CITIES_at_registered [OF assms(1)] by blast
  then show ?thesis
    using assms(2) by (auto simp: getCityWeather_def try_block_def missing_key_def)
qed

theorem missing_key_500_no_outbound_witness:
  "asc ''tainan'' \<in> set city_codes
   \<and> getCityWeather None (\<lambda>r. NoResponse) (asc ''tainan'') = (Sent missing_key, [])
   \<and> status missing_key = 500"
  using missing_key_500_no_outbound [of "asc ''tainan''" None "\<lambda>r. NoResponse"]
  by (simp add: city_codes_eq)

text \<open>
  C10. The city check comes before the key check, so a parameter that is not a registered
  code should be answered 400 even without a key, and the configuration error should be
  kept for registered cities. The parameter \<^verbatim>\<open>toString\<close> is not a registered code, it
  passes the city check as an inherited property of the registry, and without a key the
  answer is the 500 configuration error.
\<close>

theorem toString_without_key_500:
  "asc ''toString'' \<notin> set city_codes
   \<and> getCityWeather None network (asc ''toString'') = (Sent missing_key, [])
   \<and> status missing_key = 500"
  by (simp add: city_codes_eq getCityWeather_def try_block_def CITIES_at_toString missing_key_def)

section \<open>Upstream answers without usable data\<close>

text \<open>
  C7, as amended. For every 2xx upstream answer whose body is not null and in which
  \<^verbatim>\<open>records\<close> is missing or falsy, or \<^verbatim>\<open>records.location\<close> is missing or falsy, or
  \<^verbatim>\<open>records.location.length\<close> is 0 (an empty array), a registered city is answered 404.
\<close>

theorem empty_location_404:
  assumes "cityParam \<in> set city_codes" and "key \<noteq> []"
    and "network (request_for key cityParam) = HttpResponse code payload"
    and "200 \<le> code" and "code < 300"
    and "\<not> nullish payload"
    and "falsy (prop_of payload (asc ''records''))
         \<or> falsy (prop_of (prop_of payload (asc ''records'')) (asc ''location''))
         \<or> prop_of (prop_of (prop_of payload (asc ''records'')) (asc ''location'')) (asc ''length'')
             = JNum 0"
  shows "\<exists>c. map_of CITIES cityParam = Some c
           \<and> getCityWeather (Some key) network cityParam
               = (Sent (no_data (displayName c)), [request_for key cityParam])
           \<and> status (no_data (displayName c)) = 404"
proof -
  obtain c where c: "CITIES_at cityParam = Entry c" "map_of CITIES cityParam = Some c"
    using CITIES_at_registered [OF assms(1)] by blast
  have "after_response cityParam payload = Inr (no_data (displayName c))"
    using assms(6,7) c(1) by (auto simp: after_response_def get_simps)
  then show ?thesis
    using c assms(2-5) by (simp add: try_block_upstream axios_get_2xx no_data_def)
qed

theorem empty_location_404_witness:
  "getCityWeather (Some (asc ''key'')) (\<lambda>r. HttpResponse 200 (mock_records (JArr [])))
       (asc ''taipei'')
     = (Sent (no_data [21488, 21271, 24066]), [request_for (asc ''key'') (asc ''taipei'')])
   \<and> status (no_data [21488, 21271, 24066]) = 404"
  using empty_location_404 [of "asc ''taipei''" "asc ''key''"
          "\<lambda>r. HttpResponse 200 (mock_records (JArr []))" 200 "mock_records (JArr [])"]
  by (simp add: city_codes_eq mock_records_def CITIES_def)

text \<open>
  The claim as stated fails for a malformed collection: with an object in the place of the
  \<^verbatim>\<open>location\<close> array, the answer is 500.
\<close>

theorem malformed_location_500:
  "getCityWeather (Some (asc ''key'')) (\<lambda>r. HttpResponse 200 (mock_records (JObj [])))
       (asc ''taipei'')
     = (Sent server_error, [request_for (asc ''key'') (asc ''taipei'')])
   \<and> status server_error = 500"
  by (simp add: try_block_upstream axios_get_2xx CITIES_at_def CITIES_def after_response_def
       mock_records_def get_simps nat_to_str.simps catch_TypeError server_error_def)

text \<open>
  C4, as amended. For every 2xx upstream answer whose \<^verbatim>\<open>records.location\<close> is a
  non-empty array and whose first location has no \<^verbatim>\<open>weatherElement\<close>, a registered city
  is answered with the generic 500 envelope of the \<^verbatim>\<open>catch\<close> block; the body is an error
  envelope, so no forecast list is returned.
\<close>

theorem missing_weatherElement_500:
  assumes "cityParam \<in> set city_codes" and "key \<noteq> []"
    and "network (request_for key cityParam) = HttpResponse code payload"
    and "200 \<le> code" and "code < 300"
    and "prop_of (prop_of payload (asc ''records'')) (asc ''location'')
           = JArr (locationData # others)"
    and "nullish (prop_of locationData (asc ''weatherElement''))"
  shows "getCityWeather (Some key) network cityParam
           = (Sent server_error, [request_for key cityParam])
         \<and> status server_error = 500"
proof -
  obtain c where c: "CITIES_at cityParam = Entry c"
    using CITIES_at_registered [OF assms(1)] by blast
  have r: "\<not> nullish (prop_of payload (asc ''records''))" "truthy (prop_of payload (asc ''records''))"
    using prop_of_JArr_not_nullish [OF assms(6)] by simp_all
  have p: "\<not> nullish payload"
    using r(2) by (cases payload) auto
  have "after_response cityParam payload = Inl TypeError"
    using p r assms(6,7)
    by (cases "nullish locationData") (simp_all add: after_response_def get_simps)
  then show ?thesis
    using c assms(2-5)
    by (simp add: try_block_upstream axios_get_2xx catch_TypeError server_error_def)
qed

theorem missing_weatherElement_500_witness:
  "getCityWeather (Some (asc ''key'')) (\<lambda>r. HttpResponse 200 (mock_records (JArr [JObj []])))
       (asc ''taoyuan'')
     = (Sent server_error, [request_for (asc ''key'') (asc ''taoyuan'')])
   \<and> status server_error = 500"
  using missing_weatherElement_500 [of "asc ''taoyuan''" "asc ''key''"
          "\<lambda>r. HttpResponse 200 (mock_records (JArr [JObj []]))" 200
          "mock_records (JArr [JObj []])" "JObj []" "[]"]
  by (simp add: city_codes_eq mock_records_def)

text \<open>
  The claim as stated (the not-found outcome, 404) fails: a first location that has a
  name but no \<^verbatim>\<open>weatherElement\<close> is answered 500.
\<close>

theorem missing_weatherElement_not_404:
  "prop_of (prop_of (mock_records (JArr [JObj [(asc ''locationName'', JStr (asc ''x''))]]))
       (asc ''records'')) (asc ''location'')
     = JArr [JObj [(asc ''locationName'', JStr (asc ''x''))]]
   \<and> prop_of (JObj [(asc ''locationName'', JStr (asc ''x''))]) (asc ''weatherElement'') = JUndefined
   \<and> fst (getCityWeather (Some (asc ''key''))
        (\<lambda>r. HttpResponse 200 (mock_records (JArr [JObj [(asc ''locationName'', JStr (asc ''x''))]])))
        (asc ''taipei''))
       = Sent server_error
   \<and> status server_error \<noteq> 404"
  by (simp add: try_block_upstream axios_get_2xx CITIES_at_def CITIES_def after_response_def
       mock_records_def get_simps catch_TypeError server_error_def)

section \<open>Upstream errors\<close>

text \<open>
  An upstream answer outside 2xx with a body other than \<^verbatim>\<open>null\<close> is mirrored: the
  status is the upstream's and \<^verbatim>\<open>details\<close> is the upstream body.
\<close>

lemma upstream_error_mirrored:
  assumes "present (CITIES_at cityParam)" and "key \<noteq> []"
    and "network (request_for key cityParam) = HttpResponse code payload"
    and "\<not> (200 \<le> code \<and> code < 300)"
    and "\<not> nullish payload"
  shows "\<exists>e m. getCityWeather (Some key) network cityParam
           = (Sent \<lparr>status = code, json = UpstreamErrorBody e m payload\<rparr>,
              [request_for key cityParam])"
  using assms by (simp add: try_block_upstream axios_get_other catch_block_def get_simps)

text \<open>
  C8. Every upstream answer outside 2xx should be mirrored, status and body. For the
  body \<^verbatim>\<open>null\<close> the \<^verbatim>\<open>catch\<close> block throws while it reads
  \<^verbatim>\<open>error.response.data.message\<close>, and the handler sends no response at all.
\<close>

theorem null_error_body_unhandled:
  "getCityWeather (Some (asc ''key'')) (\<lambda>r. HttpResponse 502 JNull) (asc ''taipei'')
     = (Unhandled TypeError, [request_for (asc ''key'') (asc ''taipei'')])"
  by (simp add: try_block_upstream axios_get_other CITIES_at_def CITIES_def catch_block_def
       get_simps)


section \<open>The forecast loop\<close>

subsection \<open>One element at one time index\<close>

lemma js_plus_JStr [simp]: "js_plus (JStr s) sfx = Inr (JStr (s @ sfx))"
  by (simp add: js_plus_def)

text \<open>
  For a present parameter whose name is a string, or empty or missing, the callback
  changes the period as the table says.
\<close>

lemma callback_table:
  assumes "parameter_at element i = Inr v" and "truthy v"
    and "string_or_empty (prop_of v (asc ''parameterName''))"
  shows "callback i fc element
           = Inr (field_table (prop_of element (asc ''elementName''))
                    (given_text (prop_of v (asc ''parameterName''))) fc)"
  using assms
  by (cases "prop_of v (asc ''parameterName'')")
     (simp_all add: callback_def field_table_def js_or_def or_default_def Let_def
        string_or_empty_def given_text_def)

text \<open>An element with a name outside the table leaves the period as it is.\<close>

lemma callback_unknown:
  assumes "parameter_at element i = Inr v"
    and "prop_of element (asc ''elementName'') \<notin> set (map JStr table_names)"
  shows "callback i fc element = Inr fc"
    and "field_table (prop_of element (asc ''elementName'')) given fc = fc"
  using assms by (auto simp: callback_def field_table_def table_names_def Let_def)

subsection \<open>All elements at one time index\<close>

lemma forEach_append:
  "forEach f (xs @ ys) fc = thenE (forEach f xs fc) (forEach f ys)"
  by (induction xs arbitrary: fc) (auto split: sum.splits)

lemma callback_keeps_other:
  assumes "callback i fc x = Inr fc'" and "prop_of x (asc ''elementName'') \<noteq> JStr n"
  shows "field_of n fc' = field_of n fc"
proof (cases "parameter_at x i")
  case (Inl e)
  then show ?thesis using assms(1) by (simp add: callback_def)
next
  case (Inr v)
  then show ?thesis using assms
    by (auto simp: callback_def field_of_def Let_def js_plus_def thenE_def
          split: if_splits sum.splits)
qed

lemma forEach_keeps_other:
  assumes "forEach (callback i) xs fc = Inr fc'"
    and "list_all (\<lambda>x. prop_of x (asc ''elementName'') \<noteq> JStr n) xs"
  shows "field_of n fc' = field_of n fc"
  using assms
proof (induction xs arbitrary: fc)
  case Nil
  then show ?case by simp
next
  case (Cons x xs)
  from Cons.prems(1) obtain fc1
    where 1: "callback i fc x = Inr fc1" and 2: "forEach (callback i) xs fc1 = Inr fc'"
    by (auto split: sum.splits)
  have "field_of n fc1 = field_of n fc"
    using callback_keeps_other [OF 1] Cons.prems(2) by simp
  moreover have "field_of n fc' = field_of n fc1"
    using Cons.IH [OF 2] Cons.prems(2) by simp
  ultimately show ?case by simp
qed

lemma callback_on_named:
  assumes "parameter_at element i = Inr v"
    and "prop_of element (asc ''elementName'') = JStr n" and "n \<in> set table_names"
    and "falsy (prop_of v (asc ''parameterName''))"
  shows "\<exists>fc'. callback i fc element = Inr fc'
           \<and> field_of n fc' = (if truthy v then documented_default n else field_of n fc)"
  using assms
  by (auto simp: callback_def table_names_def field_of_def documented_default_def js_or_def
        Let_def asc_append)

lemma field_of_seed:
  "n \<in> set table_names \<Longrightarrow> field_of n (seed st et) = seed_default n"
  by (auto simp: table_names_def field_of_def seed_default_def seed_def)

lemma period_forEach:
  assumes "period (JArr es) i = Inr fc"
  shows "\<exists>st et. forEach (callback i) es (seed st et) = Inr fc"
  using assms
  by (auto simp: period_def weatherElements_forEach_def thenE_def split: sum.splits)

text \<open>
  C3, as amended. In the period of time index \<open>i\<close>, for the one element that carries a name
  of the table, when the parameter name of its \<open>i\<close>-th slot is empty or missing: if the
  parameter object is present, the field is the documented default with its suffix
  (U+4E0D U+660E for weather and comfort, "0%" for rain, "N/A" and the degree suffix for
  minTemp and maxTemp, "0" for windSpeed); if the parameter object is absent, the field
  keeps the value the period was seeded with, which is the same text except for minTemp
  and maxTemp, seeded with "N/A" without the suffix.
\<close>

theorem empty_parameterName_default:
  assumes "period (JArr (before @ element # after)) i = Inr fc"
    and "prop_of element (asc ''elementName'') = JStr n" and "n \<in> set table_names"
    and "list_all (\<lambda>x. prop_of x (asc ''elementName'') \<noteq> JStr n) (before @ after)"
    and "parameter_at element i = Inr v"
    and "falsy (prop_of v (asc ''parameterName''))"
  shows "field_of n fc = (if truthy v then documented_default n else seed_default n)"
proof -
  obtain st et where "forEach (callback i) (before @ element # after) (seed st et) = Inr fc"
    using period_forEach [OF assms(1)] by blast
  then obtain fc1 fc2 where
      1: "forEach (callback i) before (seed st et) = Inr fc1"
      and 2: "callback i fc1 element = Inr fc2"
      and 3: "forEach (callback i) after fc2 = Inr fc"
    by (auto simp: forEach_append thenE_def split: sum.splits)
  have a: "field_of n fc1 = seed_default n"
    using forEach_keeps_other [OF 1, of n] assms(3,4) by (simp add: field_of_seed)
  have b: "field_of n fc2 = (if truthy v then documented_default n else field_of n fc1)"
    using callback_on_named [OF assms(5,2,3,6), of fc1] 2 by auto
  have c: "field_of n fc = field_of n fc2"
    using forEach_keeps_other [OF 3, of n] assms(4) by simp
  show ?thesis using a b c by simp
qed

lemma period_empty_name:
  "period (JArr [mock_element ''Wx'' [mock_slot ''06:00'' ''18:00'' JUndefined],
                 mock_element ''MinT'' [mock_slot ''06:00'' ''18:00'' (mock_parameter [])]]) 0
     = Inr ((seed (JStr (asc ''06:00'')) (JStr (asc ''18:00'')))
              \<lparr>minTemp := JStr (asc ''N/A'' @ degrees_C)\<rparr>)"
  by (simp add: period_def slot0_def get_simps mock_element_props mock_slot_props
        weatherElements_forEach_def callback_def parameter_at_def mock_parameter_props js_or_def)

theorem empty_parameterName_default_witness:
  "period (JArr [mock_element ''Wx'' [mock_slot ''06:00'' ''18:00'' JUndefined],
                 mock_element ''MinT'' [mock_slot ''06:00'' ''18:00'' (mock_parameter [])]]) 0
     = Inr ((seed (JStr (asc ''06:00'')) (JStr (asc ''18:00'')))
              \<lparr>minTemp := JStr (asc ''N/A'' @ degrees_C)\<rparr>)
   \<and> field_of (asc ''MinT'')
       ((seed (JStr (asc ''06:00'')) (JStr (asc ''18:00'')))
          \<lparr>minTemp := JStr (asc ''N/A'' @ degrees_C)\<rparr>)
     = JStr (asc ''N/A'' @ degrees_C)
   \<and> field_of (asc ''Wx'')
       ((seed (JStr (asc ''06:00'')) (JStr (asc ''18:00'')))
          \<lparr>minTemp := JStr (asc ''N/A'' @ degrees_C)\<rparr>)
     = JStr unknown_text"
  using empty_parameterName_default
          [where before = "[mock_element ''Wx'' [mock_slot ''06:00'' ''18:00'' JUndefined]]"
             and element = "mock_element ''MinT'' [mock_slot ''06:00'' ''18:00'' (mock_parameter [])]"
             and after = "[]" and i = 0 and n = "asc ''MinT''" and v = "mock_parameter []"
             and fc = "(seed (JStr (asc ''06:00'')) (JStr (asc ''18:00'')))
                         \<lparr>minTemp := JStr (asc ''N/A'' @ degrees_C)\<rparr>"]
        empty_parameterName_default
          [where before = "[]"
             and element = "mock_element ''Wx'' [mock_slot ''06:00'' ''18:00'' JUndefined]"
             and after = "[mock_element ''MinT'' [mock_slot ''06:00'' ''18:00'' (mock_parameter [])]]"
             and i = 0 and n = "asc ''Wx''" and v = "JUndefined"
             and fc = "(seed (JStr (asc ''06:00'')) (JStr (asc ''18:00'')))
                         \<lparr>minTemp := JStr (asc ''N/A'' @ degrees_C)\<rparr>"]
  by (simp add: period_empty_name mock_element_props mock_slot_props mock_parameter_props
        table_names_def parameter_at_def get_simps documented_default_def seed_default_def)

text \<open>
  The claim as stated fails when the parameter object is absent: a \<^verbatim>\<open>MinT\<close> element whose
  slot has no parameter leaves minTemp at "N/A", not at "N/A" with the degree suffix.
\<close>

theorem absent_parameter_keeps_seed:
  "period (JArr [mock_element ''MinT'' [mock_slot ''06:00'' ''18:00'' JUndefined]]) 0
     = Inr (seed (JStr (asc ''06:00'')) (JStr (asc ''18:00'')))
   \<and> minTemp (seed (JStr (asc ''06:00'')) (JStr (asc ''18:00''))) = JStr (asc ''N/A'')
   \<and> JStr (asc ''N/A'') \<noteq> JStr (asc ''N/A'' @ degrees_C)"
  by (simp add: period_def slot0_def get_simps mock_element_props mock_slot_props
        weatherElements_forEach_def callback_def parameter_at_def seed_def degrees_C_def)

subsection \<open>Usable elements never throw\<close>

lemma to_str_primitive: "primitive v \<Longrightarrow> \<exists>s. to_str v = Inr s"
  by (cases v) auto

lemma js_plus_primitive: "primitive v \<Longrightarrow> \<exists>s. js_plus v sfx = Inr (JStr s)"
  using to_str_primitive [of v] by (auto simp: js_plus_def)

lemma primitive_js_or: "primitive a \<Longrightarrow> primitive (js_or a (JStr d))"
  by (simp add: js_or_def)

lemma callback_usable:
  assumes "element_usable n x" and "i < n"
  shows "\<exists>fc'. callback i fc x = Inr fc'
           \<and> startTime fc' = startTime fc \<and> endTime fc' = endTime fc"
proof -
  let ?t = "prop_of x (asc ''time'')"
  let ?slot = "item_of ?t i"
  let ?v = "prop_of ?slot (asc ''parameter'')"
  have x: "\<not> nullish x" "\<not> nullish ?t" and s: "slot_usable ?slot"
    using assms by (auto simp: element_usable_def list_all_iff)
  have pa: "parameter_at x i = Inr ?v"
    using x s by (simp add: parameter_at_def get_simps slot_usable_def)
  show ?thesis
  proof (cases "truthy ?v")
    case False
    then show ?thesis using pa by (simp add: callback_def)
  next
    case True
    then have "primitive (prop_of ?v (asc ''parameterName''))"
      using s by (simp add: slot_usable_def)
    then obtain a b where
      "js_plus (js_or (prop_of ?v (asc ''parameterName'')) (JStr (asc ''0''))) (asc ''%'')
         = Inr (JStr a)"
      "js_plus (js_or (prop_of ?v (asc ''parameterName'')) (JStr (asc ''N/A''))) degrees_C
         = Inr (JStr b)"
      using js_plus_primitive [OF primitive_js_or] by metis
    then show ?thesis using pa True by (simp add: callback_def Let_def)
  qed
qed

lemma forEach_usable:
  assumes "list_all (element_usable n) xs" and "i < n"
  shows "\<exists>fc'. forEach (callback i) xs fc = Inr fc'
           \<and> startTime fc' = startTime fc \<and> endTime fc' = endTime fc"
  using assms(1)
proof (induction xs arbitrary: fc)
  case Nil
  then show ?case by simp
next
  case (Cons x xs)
  obtain fc1 where 1: "callback i fc x = Inr fc1"
      "startTime fc1 = startTime fc" "endTime fc1 = endTime fc"
    using callback_usable [of n x i fc] Cons.prems assms(2) by auto
  obtain fc2 where "forEach (callback i) xs fc1 = Inr fc2"
      "startTime fc2 = startTime fc1" "endTime fc2 = endTime fc1"
    using Cons.IH [of fc1] Cons.prems by auto
  then show ?case using 1 by simp
qed

lemma period_usable:
  assumes "prop_of e0 (asc ''time'') = JArr slots"
    and "list_all (element_usable (length slots)) (e0 # es)" and "i < length slots"
  shows "\<exists>fc. period (JArr (e0 # es)) i = Inr fc
          \<and> startTime fc = prop_of (slots ! i) (asc ''startTime'')
          \<and> endTime fc = prop_of (slots ! i) (asc ''endTime'')"
proof -
  have e0: "\<not> nullish e0" and s: "\<not> nullish (slots ! i)"
    using assms by (auto simp: element_usable_def slot_usable_def list_all_iff)
  have s0: "slot0 (JArr (e0 # es)) i = Inr (slots ! i)"
    using e0 assms(1,3) by (simp add: slot0_def get_simps)
  obtain fc where "forEach (callback i) (e0 # es)
        (seed (prop_of (slots ! i) (asc ''startTime'')) (prop_of (slots ! i) (asc ''endTime'')))
          = Inr fc"
      "startTime fc = prop_of (slots ! i) (asc ''startTime'')"
      "endTime fc = prop_of (slots ! i) (asc ''endTime'')"
    using forEach_usable [OF assms(2,3)] by (fastforce simp: seed_def)
  then show ?thesis
    using s0 s by (simp add: period_def weatherElements_forEach_def get_simps)
qed

subsection \<open>The loop over the time indices\<close>

lemma forecast_loop_stop:
  "counter_less i tc = Inr False \<Longrightarrow> forecast_loop w tc i acc = Inr acc"
  by (simp add: forecast_loop.simps [of w tc i])

lemma forecast_loop_fail:
  "counter_less i tc = Inr True \<Longrightarrow> period w i = Inl e \<Longrightarrow> forecast_loop w tc i acc = Inl e"
  by (simp add: forecast_loop.simps [of w tc i])

lemma forecast_loop_step:
  "counter_less i tc = Inr True \<Longrightarrow> period w i = Inr fc \<Longrightarrow>
   forecast_loop w tc i acc = forecast_loop w tc (Suc i) (acc @ [fc])"
  by (simp add: forecast_loop.simps [of w tc i])

lemma counter_less_JNum: "counter_less i (JNum (int n)) = Inr (i < n)"
  by (simp add: counter_less_def to_number_def)

text \<open>
  With an array's length as the bound and no exception on the way, the loop returns the
  periods of all indices below the bound, in the order of the indices.
\<close>

lemma forecast_loop_JNum:
  assumes "\<And>j. i \<le> j \<Longrightarrow> j < n \<Longrightarrow> period w j = Inr (p j)"
  shows "forecast_loop w (JNum (int n)) i acc = Inr (acc @ map p [i..<n])"
  using assms
proof (induction "n - i" arbitrary: i acc)
  case 0
  then show ?case by (simp add: forecast_loop_stop counter_less_JNum)
next
  case (Suc k)
  then have lt: "i < n" and k: "k = n - Suc i" by simp_all
  have "forecast_loop w (JNum (int n)) i acc
          = forecast_loop w (JNum (int n)) (Suc i) (acc @ [p i])"
    using lt Suc.prems [of i] by (simp add: forecast_loop_step counter_less_JNum)
  also have "\<dots> = Inr ((acc @ [p i]) @ map p [Suc i..<n])"
    using Suc.hyps(1) [OF k] Suc.prems by simp
  finally show ?case using lt by (simp add: upt_conv_Cons)
qed

lemma after_response_success:
  assumes "prop_of (prop_of payload (asc ''records'')) (asc ''location'')
             = JArr (locationData # others)"
    and "prop_of locationData (asc ''weatherElement'') = JArr (e0 # es)"
    and "prop_of e0 (asc ''time'') = JArr slots"
    and "forecast_loop (JArr (e0 # es)) (JNum (int (length slots))) 0 [] = Inr fs"
  shows "\<exists>wd. after_response cityParam payload = Inr \<lparr>status = 200, json = SuccessBody wd\<rparr>
           \<and> forecasts wd = fs"
proof -
  have r: "\<not> nullish (prop_of payload (asc ''records''))" "truthy (prop_of payload (asc ''records''))"
    using prop_of_JArr_not_nullish [OF assms(1)] by simp_all
  have p: "\<not> nullish payload"
    using r(2) by (cases payload) auto
  have l: "\<not> nullish locationData"
    using prop_of_JArr_not_nullish [OF assms(2)] by simp
  have e: "\<not> nullish e0"
    using prop_of_JArr_not_nullish [OF assms(3)] by simp
  show ?thesis
    using p r l e assms by (simp add: after_response_def get_simps Let_def)
qed

text \<open>
  C1, as amended. For every 2xx upstream payload whose \<^verbatim>\<open>records.location\<close> is a non-empty
  array, whose first location has a non-empty \<^verbatim>\<open>weatherElement\<close> array, whose element 0
  has a \<^verbatim>\<open>time\<close> array, and in which every element is usable up to the length of that
  array (a non-null slot at every such index, parameter names primitive), a registered
  city with a key is answered 200 with a forecast list as long as element 0's time
  series, the period at index \<open>i\<close> carrying the \<^verbatim>\<open>startTime\<close> and \<^verbatim>\<open>endTime\<close> of element
  0's \<open>i\<close>-th slot: the periods are in the order of the time indices.
\<close>

theorem forecasts_follow_time_axis:
  assumes "cityParam \<in> set city_codes" and "key \<noteq> []"
    and "network (request_for key cityParam) = HttpResponse code payload"
    and "200 \<le> code" and "code < 300"
    and "prop_of (prop_of payload (asc ''records'')) (asc ''location'')
           = JArr (locationData # others)"
    and "prop_of locationData (asc ''weatherElement'') = JArr (e0 # es)"
    and "prop_of e0 (asc ''time'') = JArr slots"
    and "list_all (element_usable (length slots)) (e0 # es)"
  shows "\<exists>wd. getCityWeather (Some key) network cityParam
                 = (Sent \<lparr>status = 200, json = SuccessBody wd\<rparr>, [request_for key cityParam])
           \<and> length (forecasts wd) = length slots
           \<and> (\<forall>i<length slots.
                 startTime (forecasts wd ! i) = prop_of (slots ! i) (asc ''startTime'')
                 \<and> endTime (forecasts wd ! i) = prop_of (slots ! i) (asc ''endTime''))"
proof -
  obtain c where c: "CITIES_at cityParam = Entry c"
    using CITIES_at_registered [OF assms(1)] by blast
  define p where "p = (\<lambda>i. projr (period (JArr (e0 # es)) i))"
  have per: "period (JArr (e0 # es)) i = Inr (p i)
        \<and> startTime (p i) = prop_of (slots ! i) (asc ''startTime'')
        \<and> endTime (p i) = prop_of (slots ! i) (asc ''endTime'')" if "i < length slots" for i
    using period_usable [OF assms(8,9) that] by (auto simp: p_def)
  have "forecast_loop (JArr (e0 # es)) (JNum (int (length slots))) 0 []
          = Inr ([] @ map p [0..<length slots])"
    using per by (intro forecast_loop_JNum) simp
  then obtain wd
    where wd: "after_response cityParam payload = Inr \<lparr>status = 200, json = SuccessBody wd\<rparr>"
      "forecasts wd = map p [0..<length slots]"
    using after_response_success [OF assms(6,7,8)] by auto
  have "getCityWeather (Some key) network cityParam
          = (Sent \<lparr>status = 200, json = SuccessBody wd\<rparr>, [request_for key cityParam])"
    using c assms(2-5) wd(1) by (simp add: try_block_upstream axios_get_2xx)
  moreover have "length (forecasts wd) = length slots"
    using wd(2) by simp
  moreover have "\<forall>i<length slots.
      startTime (forecasts wd ! i) = prop_of (slots ! i) (asc ''startTime'')
      \<and> endTime (forecasts wd ! i) = prop_of (slots ! i) (asc ''endTime'')"
    using wd(2) per by simp
  ultimately show ?thesis by blast
qed

lemma two_periods_usable:
  "list_all (element_usable (length Wx_slots))
     [mock_element ''Wx'' Wx_slots, mock_element ''PoP'' PoP_slots]"
  by (simp add: Wx_slots_def PoP_slots_def element_usable_def slot_usable_def mock_element_props
        mock_slot_props mock_parameter_props)

theorem forecasts_follow_time_axis_witness:
  "\<exists>wd. getCityWeather (Some (asc ''key'')) (\<lambda>r. HttpResponse 200 (mock_payload two_periods))
             (asc ''kaohsiung'')
           = (Sent \<lparr>status = 200, json = SuccessBody wd\<rparr>,
              [request_for (asc ''key'') (asc ''kaohsiung'')])
     \<and> length (forecasts wd) = 2
     \<and> startTime (forecasts wd ! 0) = JStr (asc ''06:00'')
     \<and> endTime (forecasts wd ! 0) = JStr (asc ''18:00'')
     \<and> startTime (forecasts wd ! 1) = JStr (asc ''18:00'')
     \<and> endTime (forecasts wd ! 1) = JStr (asc ''06:00'')"
  using forecasts_follow_time_axis
          [where cityParam = "asc ''kaohsiung''" and key = "asc ''key''"
             and network = "\<lambda>r. HttpResponse 200 (mock_payload two_periods)"
             and code = 200 and payload = "mock_payload two_periods"
             and locationData = "JObj [(asc ''weatherElement'', JArr two_periods)]"
             and others = "[]"
             and ?e0.0 = "mock_element ''Wx'' Wx_slots" and es = "[mock_element ''PoP'' PoP_slots]"
             and slots = Wx_slots]
        two_periods_usable
  apply (simp add: city_codes_eq mock_payload_props mock_element_props two_periods_def)
  apply (simp add: Wx_slots_def mock_slot_props All_less_Suc numeral_2_eq_2)
  apply blast
  done

text \<open>
  The claim as stated fails on a ragged payload: with one slot in element 0 and none in
  the second element, the location and the \<^verbatim>\<open>weatherElement\<close> array are not empty, the
  callback throws on the missing slot, and the answer is the 500 error envelope with no
  forecast list.
\<close>

lemma period_ragged:
  "period (JArr [mock_element ''Wx'' [mock_slot ''06:00'' ''18:00'' (mock_parameter [22810, 38642])],
                 mock_element ''PoP'' []]) 0 = Inl TypeError"
  by (simp add: period_def slot0_def get_simps mock_element_props mock_slot_props
        weatherElements_forEach_def callback_def parameter_at_def mock_parameter_props js_or_def)

theorem ragged_time_series_500:
  "getCityWeather (Some (asc ''key''))
     (\<lambda>r. HttpResponse 200
        (mock_payload
           [mock_element ''Wx'' [mock_slot ''06:00'' ''18:00'' (mock_parameter [22810, 38642])],
            mock_element ''PoP'' []]))
     (asc ''taipei'')
   = (Sent server_error, [request_for (asc ''key'') (asc ''taipei'')])
   \<and> status server_error = 500
   \<and> forecasts_sent (Sent server_error) = None"
  by (simp add: try_block_upstream axios_get_2xx CITIES_at_def CITIES_def after_response_def
        mock_payload_def mock_records_def get_simps mock_element_props Let_def
        forecast_loop_fail counter_less_def to_number_def period_ragged catch_TypeError
        server_error_def forecasts_sent_def)

subsection \<open>The loop against the table of the specification\<close>

lemma callback_textual:
  assumes "element_textual n x" and "i < n"
  shows "callback i fc x = Inr (table_step i x fc)"
proof -
  let ?t = "prop_of x (asc ''time'')"
  let ?slot = "item_of ?t i"
  let ?v = "prop_of ?slot (asc ''parameter'')"
  have x: "\<not> nullish x" "\<not> nullish ?t"
    and s: "slot_textual (prop_of x (asc ''elementName'')) ?slot"
    using assms by (auto simp: element_textual_def list_all_iff)
  have pa: "parameter_at x i = Inr ?v"
    using x s by (simp add: parameter_at_def get_simps slot_textual_def)
  show ?thesis
  proof (cases "truthy ?v")
    case False
    then show ?thesis using pa by (simp add: callback_def table_step_def)
  next
    case True
    show ?thesis
    proof (cases "prop_of x (asc ''elementName'') \<in> set (map JStr table_names)")
      case known: True
      then have "string_or_empty (prop_of ?v (asc ''parameterName''))"
        using s True by (simp add: slot_textual_def)
      then show ?thesis
        using callback_table [OF pa True] True by (simp add: table_step_def)
    next
      case False
      then show ?thesis
        using callback_unknown [OF pa False] True by (simp add: table_step_def)
    qed
  qed
qed

lemma forEach_textual:
  assumes "list_all (element_textual n) xs" and "i < n"
  shows "forEach (callback i) xs fc = Inr (fold (table_step i) xs fc)"
  using assms(1)
proof (induction xs arbitrary: fc)
  case Nil
  then show ?case by simp
next
  case (Cons x xs)
  then show ?case
    using callback_textual [of n x i fc] assms(2) by simp
qed

lemma period_textual:
  assumes "prop_of e0 (asc ''time'') = JArr slots"
    and "list_all (element_textual (length slots)) (e0 # es)" and "i < length slots"
  shows "period (JArr (e0 # es)) i = Inr (table_period (e0 # es) (slots ! i) i)"
proof -
  have e0: "\<not> nullish e0" and s: "\<not> nullish (slots ! i)"
    using assms by (auto simp: element_textual_def slot_textual_def list_all_iff)
  have s0: "slot0 (JArr (e0 # es)) i = Inr (slots ! i)"
    using e0 assms(1,3) by (simp add: slot0_def get_simps)
  show ?thesis
    using s0 s forEach_textual [OF assms(2,3)]
    by (simp add: period_def weatherElements_forEach_def get_simps table_period_def)
qed

text \<open>
  C2. For every weather element of the payload and every time index \<open>i\<close>, the handler
  changes the period of index \<open>i\<close> as the table says whenever the parameter of the
  element's \<open>i\<close>-th time slot is present: the element name selects the field (Wx weather,
  PoP rain, MinT minTemp, MaxT maxTemp, CI comfort, WS windSpeed), the parameter name is
  the text, replaced by the field's default when it is empty or missing, with the
  field's suffix; an element with a name outside the table leaves the period unchanged.
  Stated for the whole handler: on a payload whose elements all have a slot at every
  index of element 0's time array, and whose table elements name strings (or nothing),
  the forecast list sent is, index by index, the seeded period with the table applied
  for every element in turn.
\<close>

theorem forecasts_follow_table:
  assumes "cityParam \<in> set city_codes" and "key \<noteq> []"
    and "network (request_for key cityParam) = HttpResponse code payload"
    and "200 \<le> code" and "code < 300"
    and "prop_of (prop_of payload (asc ''records'')) (asc ''location'')
           = JArr (locationData # others)"
    and "prop_of locationData (asc ''weatherElement'') = JArr (e0 # es)"
    and "prop_of e0 (asc ''time'') = JArr slots"
    and "list_all (element_textual (length slots)) (e0 # es)"
  shows "\<exists>wd. getCityWeather (Some key) network cityParam
                 = (Sent \<lparr>status = 200, json = SuccessBody wd\<rparr>, [request_for key cityParam])
           \<and> forecasts wd
               = map (\<lambda>i. table_period (e0 # es) (slots ! i) i) [0..<length slots]"
proof -
  obtain c where c: "CITIES_at cityParam = Entry c"
    using CITIES_at_registered [OF assms(1)] by blast
  have "forecast_loop (JArr (e0 # es)) (JNum (int (length slots))) 0 []
          = Inr ([] @ map (\<lambda>i. table_period (e0 # es) (slots ! i) i) [0..<length slots])"
    using period_textual [OF assms(8,9)] by (intro forecast_loop_JNum) simp
  then obtain wd
    where wd: "after_response cityParam payload = Inr \<lparr>status = 200, json = SuccessBody wd\<rparr>"
      "forecasts wd = map (\<lambda>i. table_period (e0 # es) (slots ! i) i) [0..<length slots]"
    using after_response_success [OF assms(6,7,8)] by auto
  have "getCityWeather (Some key) network cityParam
          = (Sent \<lparr>status = 200, json = SuccessBody wd\<rparr>, [request_for key cityParam])"
    using c assms(2-5) wd(1) by (simp add: try_block_upstream axios_get_2xx)
  then show ?thesis using wd(2) by blast
qed

lemma with_unknown_element_textual:
  "list_all (element_textual (length Wx_slots))
     [mock_element ''Wx'' Wx_slots, mock_element ''UVI'' UVI_slots, mock_element ''PoP'' PoP_slots]"
  by (simp add: Wx_slots_def PoP_slots_def UVI_slots_def element_textual_def slot_textual_def
        mock_element_props mock_slot_props mock_parameter_props string_or_empty_def
        table_names_def)

lemma table_period_with_unknown_element:
  "map (\<lambda>i. table_period
               [mock_element ''Wx'' Wx_slots, mock_element ''UVI'' UVI_slots,
                mock_element ''PoP'' PoP_slots] (Wx_slots ! i) i) [0..<length Wx_slots]
     = two_forecasts"
  by (simp add: Wx_slots_def PoP_slots_def UVI_slots_def table_period_def table_step_def
        mock_element_props mock_slot_props mock_parameter_props field_table_def given_text_def
        or_default_def two_forecasts_def seed_def asc_append upt_rec [of 0] upt_rec [of 1]
        upt_rec [of 2] numeral_2_eq_2)

theorem forecasts_follow_table_witness:
  "\<exists>wd. getCityWeather (Some (asc ''key''))
             (\<lambda>r. HttpResponse 200 (mock_payload with_unknown_element)) (asc ''taichung'')
           = (Sent \<lparr>status = 200, json = SuccessBody wd\<rparr>,
              [request_for (asc ''key'') (asc ''taichung'')])
     \<and> forecasts wd = two_forecasts"
  using forecasts_follow_table
          [where cityParam = "asc ''taichung''" and key = "asc ''key''"
             and network = "\<lambda>r. HttpResponse 200 (mock_payload with_unknown_element)"
             and code = 200 and payload = "mock_payload with_unknown_element"
             and locationData = "JObj [(asc ''weatherElement'', JArr with_unknown_element)]"
             and others = "[]"
             and ?e0.0 = "mock_element ''Wx'' Wx_slots"
             and es = "[mock_element ''UVI'' UVI_slots, mock_element ''PoP'' PoP_slots]"
             and slots = Wx_slots]
        with_unknown_element_textual table_period_with_unknown_element
  by (simp add: city_codes_eq mock_payload_props mock_element_props with_unknown_element_def)

section \<open>The forecasts depend on the payload alone\<close>

lemma catch_block_no_forecasts:
  "forecasts_sent (case catch_block e of Inr r \<Rightarrow> Sent r | Inl e' \<Rightarrow> Unhandled e') = None"
  by (cases e) (auto simp: catch_block_def forecasts_sent_def server_error_def thenE_def get_def
        split: option.splits sum.splits)

lemma forecasts_sent_handler:
  assumes "CITIES_at c = Entry a" and "key \<noteq> []"
    and "network (request_for key c) = HttpResponse code payload"
    and "200 \<le> code" and "code < 300"
  shows "forecasts_sent (fst (getCityWeather (Some key) network c))
       = (case after_response c payload of Inl e \<Rightarrow> None | Inr r \<Rightarrow> forecasts_sent (Sent r))"
  using assms
  by (simp add: try_block_upstream axios_get_2xx catch_block_no_forecasts split: sum.splits)

lemma forecasts_sent_after_response:
  assumes "CITIES_at c1 = Entry a" and "CITIES_at c2 = Entry b"
  shows "(case after_response c1 payload of Inl e \<Rightarrow> None | Inr r \<Rightarrow> forecasts_sent (Sent r))
       = (case after_response c2 payload of Inl e \<Rightarrow> None | Inr r \<Rightarrow> forecasts_sent (Sent r))"
  using assms
  by (simp add: after_response_def thenE_def forecasts_sent_def no_data_def Let_def
        split: sum.splits)

text \<open>
  C9. The normalization is deterministic and keeps no state: two runs of the handler on
  the same upstream payload, for any two registered cities, any two keys and any two
  status codes in 2xx, send the same forecast list (equal field by field, in the same
  order, of the same length), or both send none.
\<close>

theorem forecasts_depend_on_payload_only:
  assumes "c1 \<in> set city_codes" and "c2 \<in> set city_codes"
    and "key1 \<noteq> []" and "key2 \<noteq> []"
    and "network1 (request_for key1 c1) = HttpResponse code1 payload"
    and "network2 (request_for key2 c2) = HttpResponse code2 payload"
    and "200 \<le> code1" and "code1 < 300" and "200 \<le> code2" and "code2 < 300"
  shows "forecasts_sent (fst (getCityWeather (Some key1) network1 c1))
       = forecasts_sent (fst (getCityWeather (Some key2) network2 c2))"
proof -
  obtain a b where ab: "CITIES_at c1 = Entry a" "CITIES_at c2 = Entry b"
    using CITIES_at_registered assms(1,2) by blast
  show ?thesis
    using forecasts_sent_handler [of c1 a key1 network1 code1 payload]
          forecasts_sent_handler [of c2 b key2 network2 code2 payload]
          forecasts_sent_after_response [OF ab, of payload] ab assms
    by simp
qed

lemma period_two_periods:
  "period (JArr two_periods) 0 = Inr (two_forecasts ! 0)"
  "period (JArr two_periods) (Suc 0) = Inr (two_forecasts ! 1)"
  by (simp_all add: two_periods_def two_forecasts_def Wx_slots_def PoP_slots_def period_def
        slot0_def get_simps mock_element_props mock_slot_props weatherElements_forEach_def
        callback_def parameter_at_def mock_parameter_props js_or_def seed_def asc_append)

lemma forecast_loop_two_periods:
  "forecast_loop (JArr two_periods) (JNum 2) 0 [] = Inr two_forecasts"
proof -
  have c: "counter_less 0 (JNum 2) = Inr True" "counter_less (Suc 0) (JNum 2) = Inr True"
      "counter_less (Suc (Suc 0)) (JNum 2) = Inr False"
    by (simp_all add: counter_less_def to_number_def)
  show ?thesis
    by (simp add: forecast_loop_step [OF c(1) period_two_periods(1)]
          forecast_loop_step [OF c(2) period_two_periods(2)] forecast_loop_stop [OF c(3)]
          two_forecasts_def)
qed

lemma two_periods_sent:
  "forecasts_sent (fst (getCityWeather (Some (asc ''key''))
       (\<lambda>r. HttpResponse 200 (mock_payload two_periods)) (asc ''taipei'')))
     = Some two_forecasts"
proof -
  have "forecast_loop (JArr (mock_element ''Wx'' Wx_slots # [mock_element ''PoP'' PoP_slots]))
          (JNum (int (length Wx_slots))) 0 [] = Inr two_forecasts"
    using forecast_loop_two_periods by (simp add: two_periods_def Wx_slots_def)
  then obtain wd where
    "after_response (asc ''taipei'') (mock_payload two_periods)
       = Inr \<lparr>status = 200, json = SuccessBody wd\<rparr>"
    "forecasts wd = two_forecasts"
    using after_response_success
            [where payload = "mock_payload two_periods"
               and locationData = "JObj [(asc ''weatherElement'', JArr two_periods)]"
               and others = "[]" and ?e0.0 = "mock_element ''Wx'' Wx_slots"
               and es = "[mock_element ''PoP'' PoP_slots]" and slots = Wx_slots
               and fs = two_forecasts and cityParam = "asc ''taipei''"]
    by (auto simp: mock_payload_props mock_element_props two_periods_def)
  then show ?thesis
    using forecasts_sent_handler
            [where c = "asc ''taipei''" and key = "asc ''key''" and code = 200
               and network = "\<lambda>r. HttpResponse 200 (mock_payload two_periods)"
               and payload = "mock_payload two_periods"]
    by (simp add: CITIES_at_def CITIES_def forecasts_sent_def)
qed

theorem forecasts_depend_on_payload_only_witness:
  "forecasts_sent (fst (getCityWeather (Some (asc ''other''))
       (\<lambda>r. HttpResponse 201 (mock_payload two_periods)) (asc ''tainan'')))
     = forecasts_sent (fst (getCityWeather (Some (asc ''key''))
       (\<lambda>r. HttpResponse 200 (mock_payload two_periods)) (asc ''taipei'')))
   \<and> forecasts_sent (fst (getCityWeather (Some (asc ''key''))
       (\<lambda>r. HttpResponse 200 (mock_payload two_periods)) (asc ''taipei'')))
     = Some two_forecasts"
  using forecasts_depend_on_payload_only
          [where ?c1.0 = "asc ''tainan''" and ?c2.0 = "asc ''taipei''"
             and ?key1.0 = "asc ''other''" and ?key2.0 = "asc ''key''"
             and ?network1.0 = "\<lambda>r. HttpResponse 201 (mock_payload two_periods)"
             and ?network2.0 = "\<lambda>r. HttpResponse 200 (mock_payload two_periods)"
             and ?code1.0 = 201 and ?code2.0 = 200 and payload = "mock_payload two_periods"]
  by (simp add: city_codes_eq two_periods_sent)

end
